theory Spec2Isabelle
  imports Main
begin

section \<open>The OCR service: single-document and bulk (ZIP) dispatch\<close>

text \<open>
  A shallow embedding of \<^verbatim>\<open>1-python_basics/nanonets_ocr_old.py\<close>: the endpoints
  \<^verbatim>\<open>extract_resume_fields\<close> and \<^verbatim>\<open>ocr_smalter_sync\<close> and the helper
  \<^verbatim>\<open>run_bulk_ocr_task_sync\<close>. Exceptions are values (the left summand of a sum),
  the file system and the calls to collaborators are an explicit world that every
  function takes and returns, and the collaborators themselves (OCR model, metadata
  reader, ZIP extraction, temporary files) are fields of an environment record, so
  every theorem holds for whatever they answer.
\<close>

subsection \<open>Strings\<close>

text \<open>
  File names are ASCII strings; \<^verbatim>\<open>str.lower\<close> and \<^verbatim>\<open>str.upper\<close> move the
  letters A-Z and a-z and leave every other character alone.
\<close>

definition lower_char :: "char \<Rightarrow> char" where
  "lower_char c =
     (case map_of (zip ''ABCDEFGHIJKLMNOPQRSTUVWXYZ'' ''abcdefghijklmnopqrstuvwxyz'') c of
        Some d \<Rightarrow> d
      | None \<Rightarrow> c)"

definition upper_char :: "char \<Rightarrow> char" where
  "upper_char c =
     (case map_of (zip ''abcdefghijklmnopqrstuvwxyz'' ''ABCDEFGHIJKLMNOPQRSTUVWXYZ'') c of
        Some d \<Rightarrow> d
      | None \<Rightarrow> c)"

definition lower :: "string \<Rightarrow> string" where
  "lower s = map lower_char s"

definition upper :: "string \<Rightarrow> string" where
  "upper s = map upper_char s"

text \<open>\<^verbatim>\<open>s.endswith(suf)\<close> for one suffix, and for a tuple of suffixes.\<close>

definition endswith :: "string \<Rightarrow> string \<Rightarrow> bool" where
  "endswith s suf = (length suf \<le> length s \<and> drop (length s - length suf) s = suf)"

fun endswith_any :: "string \<Rightarrow> string list \<Rightarrow> bool" where
  "endswith_any s [] = False"
| "endswith_any s (suf # sufs) = (endswith s suf \<or> endswith_any s sufs)"

text \<open>\<^verbatim>\<open>s.startswith(pre)\<close>.\<close>

definition startswith :: "string \<Rightarrow> string \<Rightarrow> bool" where
  "startswith s pre = (take (length pre) s = pre)"

text \<open>\<^verbatim>\<open>s.replace('.', '')\<close>: every dot is dropped.\<close>

definition remove_dots :: "string \<Rightarrow> string" where
  "remove_dots s = filter (\<lambda>c. c \<noteq> CHR ''.'') s"

text \<open>
  \<^verbatim>\<open>s.rfind(c)\<close> for a single character: the last index of \<open>c\<close>, or \<open>-1\<close>.
  The accumulator is the answer so far, the counter the index of the head.
\<close>

fun rfind_from :: "char \<Rightarrow> string \<Rightarrow> int \<Rightarrow> int \<Rightarrow> int" where
  "rfind_from c [] i found = found"
| "rfind_from c (x # xs) i found = rfind_from c xs (i + 1) (if x = c then i else found)"

definition rfind :: "string \<Rightarrow> char \<Rightarrow> int" where
  "rfind s c = rfind_from c s 0 (-1)"

text \<open>
  \<^verbatim>\<open>os.path.splitext\<close> (POSIX): the extension starts at the last dot of the last path
  component, unless every character of that component before the dot is a dot too. The
  library's loop over the leading dots:
  \<^verbatim>\<open>
  filenameIndex = sepIndex + 1
  while filenameIndex < dotIndex:
      if p[filenameIndex:filenameIndex+1] != extsep:
          return p[:dotIndex], p[dotIndex:]
      filenameIndex += 1
  \<close>
\<close>

function skip_leading_dots :: "string \<Rightarrow> nat \<Rightarrow> nat \<Rightarrow> bool" where
  "skip_leading_dots p filenameIndex dotIndex =
     (if filenameIndex < dotIndex
      then (if take 1 (drop filenameIndex p) \<noteq> ''.'' then True
            else skip_leading_dots p (filenameIndex + 1) dotIndex)
      else False)"
  by pat_completeness auto
termination
  by (relation "measure (\<lambda>(p, i, d). d - i)") auto

declare skip_leading_dots.simps [simp del]

definition splitext :: "string \<Rightarrow> string \<times> string" where
  "splitext p =
     (let sepIndex = rfind p CHR ''/''; dotIndex = rfind p CHR ''.''
      in if dotIndex > sepIndex \<and> skip_leading_dots p (nat (sepIndex + 1)) (nat dotIndex)
         then (take (nat dotIndex) p, drop (nat dotIndex) p)
         else (p, ''''))"

text \<open>
  \<^verbatim>\<open>file_extension.replace('.', '').upper() if file_extension else "UNKNOWN"\<close>
\<close>

definition file_type_of :: "string \<Rightarrow> string" where
  "file_type_of file_extension =
     (if file_extension \<noteq> '''' then upper (remove_dots file_extension) else ''UNKNOWN'')"

text \<open>\<^verbatim>\<open>os.path.join(a, b)\<close> (POSIX) for two components.\<close>

definition path_join :: "string \<Rightarrow> string \<Rightarrow> string" where
  "path_join a b =
     (if startswith b ''/'' then b
      else if a = '''' \<or> endswith a ''/'' then a @ b
      else a @ ''/'' @ b)"

subsection \<open>Data\<close>

type_synonym bytes = "nat list"

text \<open>
  Modelled from the spec: the enumeration \<^verbatim>\<open>SmalterDocumentType\<close> is declared in
  \<^verbatim>\<open>helpers/helper_smalter.py\<close>, which is not part of the sources at hand. The source
  names three members; the spec lists further selectors (resume, generic), which are
  the members \<open>OTHER_DOCUMENT\<close> here, told apart by their name.
\<close>

datatype SmalterDocumentType = CNI_FRONT | CNI_BACK | WORK_CONTRACT | OTHER_DOCUMENT string

text \<open>
  Modelled from the spec: the enumeration \<^verbatim>\<open>CniLanguage\<close> comes from the same missing
  module. A member is known by its \<^verbatim>\<open>.value\<close>; a member is truthy, so
  \<^verbatim>\<open>not lang\<close> holds for \<^verbatim>\<open>None\<close> only.
\<close>

datatype CniLanguage = CniLanguage (lang_value: string)

text \<open>JSON-like values: the OCR payloads, the metadata dictionaries, the responses.\<close>

datatype json =
    JNull
  | JBool bool
  | JNum int
  | JStr string
  | JList "json list"
  | JDict "(string \<times> json) list"

datatype image = Image bytes

text \<open>
  Exceptions. \<open>HTTPException status detail\<close> is FastAPI's; \<open>Error msg\<close> is any other
  subclass of \<^verbatim>\<open>Exception\<close>, with \<open>msg\<close> what \<^verbatim>\<open>str(e)\<close> gives.
\<close>

datatype exn = HTTPException nat string | Error string

text \<open>The calls that touch the outside, in the order the program makes them.\<close>

datatype event =
    FileRead
  | CreationDate string
  | NamedTemporaryFile string
  | TmpWrite string
  | OsRemove string
  | TemporaryDirectory
  | ExtractAll string
  | Cleanup string
  | OpenRead string
  | OcrSmalterHelper string

text \<open>
  The world: the temporary files and directories that exist (\<open>live\<close>) and the calls
  made so far (\<open>trace\<close>).
\<close>

record world =
  live :: "string list"
  trace :: "event list"

definition emit :: "event \<Rightarrow> world \<Rightarrow> world" where
  "emit e w = w\<lparr>trace := trace w @ [e]\<rparr>"

definition create :: "string \<Rightarrow> world \<Rightarrow> world" where
  "create p w = w\<lparr>live := p # live w\<rparr>"

definition delete :: "string \<Rightarrow> world \<Rightarrow> world" where
  "delete p w = w\<lparr>live := removeAll p (live w)\<rparr>"

text \<open>
  The collaborators. Each is a function of its arguments that answers with a value or
  raises. \<open>type_value\<close> is \<^verbatim>\<open>image_type.value\<close>; \<open>http_exception_str\<close> is
  \<^verbatim>\<open>str(e)\<close> of an \<^verbatim>\<open>HTTPException\<close>; \<open>extractall\<close> stands for
  \<^verbatim>\<open>zipfile.ZipFile(...).extractall(temp_dir)\<close> and answers with the tree it wrote, as
  \<^verbatim>\<open>os.walk(temp_dir)\<close> then lists it: one pair of a directory and its file names per
  directory. \<^verbatim>\<open>MODEL\<close> and \<^verbatim>\<open>PROCESSOR\<close> are fixed and not shown.
\<close>

record env =
  type_value :: "SmalterDocumentType \<Rightarrow> string"
  http_exception_str :: "nat \<Rightarrow> string \<Rightarrow> string"
  get_document_creation_date_sync :: "string \<Rightarrow> bytes \<Rightarrow> exn + string"
  ocr_smalter_helper :: "string \<Rightarrow> SmalterDocumentType \<Rightarrow> CniLanguage option \<Rightarrow> exn + json"
  named_temporary_file :: "string \<Rightarrow> exn + string"
  tmp_write :: "string \<Rightarrow> bytes \<Rightarrow> exn + unit"
  temporary_directory :: "exn + string"
  extractall :: "bytes \<Rightarrow> string \<Rightarrow> exn + (string \<times> string list) list"
  open_read :: "string \<Rightarrow> exn + bytes"
  convert_from_bytes :: "bytes \<Rightarrow> exn + image list"
  image_open :: "bytes \<Rightarrow> exn + image"
  ocr_resume :: "image \<Rightarrow> exn + string"
  clean_zip_from_resume_entry :: "string \<Rightarrow> exn + string"
  json_loads :: "string \<Rightarrow> exn + json"

definition str_exn :: "env \<Rightarrow> exn \<Rightarrow> string" where
  "str_exn E e = (case e of HTTPException s d \<Rightarrow> http_exception_str E s d | Error m \<Rightarrow> m)"

definition apostrophe :: string where
  "apostrophe = [CHR 0x27]"

subsection \<open>The module's names\<close>

text \<open>
  The names bound at module level when a request arrives: the imports (lines 7 to 34)
  and the module's own assignments and definitions. A name that is read and is neither
  here nor a builtin raises \<^verbatim>\<open>NameError\<close>.
\<close>

definition module_globals :: "string list" where
  "module_globals =
     [''io'', ''os'', ''json'', ''tempfile'', ''Optional'', ''asynccontextmanager'',
      ''FastAPI'', ''File'', ''Form'', ''UploadFile'', ''HTTPException'', ''JSONResponse'',
      ''Image'', ''convert_from_bytes'', ''AutoProcessor'', ''AutoModelForImageTextToText'',
      ''RESUME_PROMPT'', ''EILIFY_PROMPT'', ''ocr_resume'', ''clean_zip_from_resume_entry'',
      ''ocr_eilify'', ''CniLanguage'', ''SmalterDocumentType'',
      ''get_document_creation_date_sync'', ''clean_json_output'', ''ocr_smalter_helper'',
      ''run_bulk_ocr_task'', ''MODEL_PATH'', ''MODEL'', ''PROCESSOR'', ''lifespan'', ''app'',
      ''extract_resume_fields'', ''ocr_smalter_sync'', ''elify_ocr'',
      ''run_bulk_ocr_task_sync'']"

definition load_global :: "string list \<Rightarrow> string \<Rightarrow> exn + unit" where
  "load_global g name =
     (if name \<in> set g then Inr ()
      else Inl (Error (''name '' @ apostrophe @ name @ apostrophe @ '' is not defined'')))"

subsection \<open>Pieces shared by the single and the bulk path\<close>

text \<open>
  \<^verbatim>\<open>is_cni = image_type in [SmalterDocumentType.CNI_FRONT, SmalterDocumentType.CNI_BACK]\<close>
\<close>

definition is_cni_type :: "SmalterDocumentType \<Rightarrow> bool" where
  "is_cni_type image_type = (image_type \<in> set [CNI_FRONT, CNI_BACK])"

definition supported_bulk_types :: "SmalterDocumentType list" where
  "supported_bulk_types = [CNI_FRONT, CNI_BACK, WORK_CONTRACT]"

definition supported_extensions :: "string list" where
  "supported_extensions = [''.png'', ''.jpg'', ''.jpeg'', ''.pdf'']"

text \<open>
  \<^verbatim>\<open>details = ocr_result if isinstance(ocr_result, list) else [ocr_result]\<close>
\<close>

definition details_of :: "json \<Rightarrow> json" where
  "details_of ocr_result =
     (case ocr_result of JList xs \<Rightarrow> ocr_result | _ \<Rightarrow> JList [ocr_result])"

text \<open>
  \<^verbatim>\<open>if is_cni: file_metadata["language"] = lang.value\<close>: reading \<^verbatim>\<open>.value\<close> of
  \<^verbatim>\<open>None\<close> raises \<^verbatim>\<open>AttributeError\<close>.
\<close>

definition attribute_error :: exn where
  "attribute_error =
     Error (apostrophe @ ''NoneType'' @ apostrophe @ '' object has no attribute ''
            @ apostrophe @ ''value'' @ apostrophe)"

definition add_language ::
  "bool \<Rightarrow> CniLanguage option \<Rightarrow> (string \<times> json) list \<Rightarrow> exn + (string \<times> json) list" where
  "add_language is_cni lang file_metadata =
     (if is_cni
      then (case lang of
              None \<Rightarrow> Inl attribute_error
            | Some l \<Rightarrow> Inr (file_metadata @ [(''language'', JStr (lang_value l))]))
      else Inr file_metadata)"

definition final_response :: "(string \<times> json) list \<Rightarrow> json \<Rightarrow> json" where
  "final_response file_metadata details =
     JDict [(''file_metadata'', JDict file_metadata), (''details'', details)]"

definition file_url :: "env \<Rightarrow> SmalterDocumentType \<Rightarrow> string" where
  "file_url E image_type = ''/ocr/smalter/'' @ type_value E image_type"

subsection \<open>\<^verbatim>\<open>run_bulk_ocr_task_sync\<close>\<close>

text \<open>
  The \<^verbatim>\<open>try\<close> block of one entry (lines 173 to 185): the fragment it appends, or the
  exception it raises.
\<close>

definition entry_try ::
  "env \<Rightarrow> SmalterDocumentType \<Rightarrow> CniLanguage option \<Rightarrow> string \<Rightarrow> string \<Rightarrow> world
   \<Rightarrow> (exn + json) \<times> world" where
  "entry_try E image_type lang file_path filename w =
     (let w1 = emit (OpenRead file_path) w in
      (case open_read E file_path of
         Inl e \<Rightarrow> (Inl e, w1)
       | Inr file_bytes_for_meta \<Rightarrow>
           (let w2 = emit (CreationDate filename) w1 in
            (case get_document_creation_date_sync E filename file_bytes_for_meta of
               Inl e \<Rightarrow> (Inl e, w2)
             | Inr creation_date \<Rightarrow>
                 (let file_extension = snd (splitext filename);
                      file_type = file_type_of file_extension;
                      is_cni = is_cni_type image_type;
                      w3 = emit (OcrSmalterHelper file_path) w2
                  in (case ocr_smalter_helper E file_path image_type lang of
                        Inl e \<Rightarrow> (Inl e, w3)
                      | Inr ocr_result \<Rightarrow>
                          (case add_language is_cni lang
                                  [(''source_file'', JStr filename),
                                   (''file_url'', JStr (file_url E image_type)),
                                   (''file_type'', JStr file_type),
                                   (''file_creation_date'', JStr creation_date)] of
                             Inl e \<Rightarrow> (Inl e, w3)
                           | Inr file_metadata \<Rightarrow>
                               (Inr (final_response file_metadata (details_of ocr_result)),
                                w3))))))))"

text \<open>The fragment of the \<^verbatim>\<open>except Exception as e\<close> branch (line 187).\<close>

definition error_fragment :: "env \<Rightarrow> string \<Rightarrow> exn \<Rightarrow> json" where
  "error_fragment E filename e =
     JDict [(''file_metadata'', JDict [(''source_file'', JStr filename), (''error'', JBool True)]),
            (''details'', JList [JStr (str_exn E e)])]"

text \<open>The body of the inner loop for one file name (lines 169 to 187).\<close>

definition process_file ::
  "env \<Rightarrow> SmalterDocumentType \<Rightarrow> CniLanguage option \<Rightarrow> string \<Rightarrow> string
   \<Rightarrow> json list \<times> world \<Rightarrow> json list \<times> world" where
  "process_file E image_type lang root filename st =
     (case st of (all_results, w) \<Rightarrow>
        (if \<not> endswith_any (lower filename) supported_extensions then (all_results, w)
         else
           (let file_path = path_join root filename in
            (case entry_try E image_type lang file_path filename w of
               (Inr resp, w') \<Rightarrow> (all_results @ [resp], w')
             | (Inl e, w') \<Rightarrow> (all_results @ [error_fragment E filename e], w')))))"

text \<open>\<^verbatim>\<open>for filename in files\<close> and \<^verbatim>\<open>for root, _, files in os.walk(temp_dir)\<close>.\<close>

fun process_files ::
  "env \<Rightarrow> SmalterDocumentType \<Rightarrow> CniLanguage option \<Rightarrow> string \<Rightarrow> string list
   \<Rightarrow> json list \<times> world \<Rightarrow> json list \<times> world" where
  "process_files E image_type lang root [] st = st"
| "process_files E image_type lang root (filename # files) st =
     process_files E image_type lang root files (process_file E image_type lang root filename st)"

fun process_walk ::
  "env \<Rightarrow> SmalterDocumentType \<Rightarrow> CniLanguage option \<Rightarrow> (string \<times> string list) list
   \<Rightarrow> json list \<times> world \<Rightarrow> json list \<times> world" where
  "process_walk E image_type lang [] st = st"
| "process_walk E image_type lang ((root, files) # rest) st =
     process_walk E image_type lang rest (process_files E image_type lang root files st)"

text \<open>The exit of \<^verbatim>\<open>with tempfile.TemporaryDirectory() as temp_dir\<close>.\<close>

definition cleanup :: "string \<Rightarrow> world \<Rightarrow> world" where
  "cleanup temp_dir w = delete temp_dir (emit (Cleanup temp_dir) w)"

text \<open>
  The function, with the module's names \<open>g\<close> as a parameter: line 165 reads the global
  \<^verbatim>\<open>zipfile\<close> inside the \<^verbatim>\<open>with\<close> block of the temporary directory.
\<close>

definition run_bulk_ocr_task_sync_in ::
  "string list \<Rightarrow> env \<Rightarrow> bytes \<Rightarrow> SmalterDocumentType \<Rightarrow> CniLanguage option \<Rightarrow> world
   \<Rightarrow> (exn + json list) \<times> world" where
  "run_bulk_ocr_task_sync_in g E zip_bytes image_type lang w =
     (let w0 = emit TemporaryDirectory w in
      (case temporary_directory E of
         Inl e \<Rightarrow> (Inl e, w0)
       | Inr temp_dir \<Rightarrow>
           (let w1 = create temp_dir w0 in
            (case load_global g ''zipfile'' of
               Inl e \<Rightarrow> (Inl e, cleanup temp_dir w1)
             | Inr _ \<Rightarrow>
                 (let w2 = emit (ExtractAll temp_dir) w1 in
                  (case extractall E zip_bytes temp_dir of
                     Inl e \<Rightarrow> (Inl e, cleanup temp_dir w2)
                   | Inr tree \<Rightarrow>
                       (case process_walk E image_type lang tree ([], w2) of
                          (all_results, w3) \<Rightarrow>
                            (Inr all_results, cleanup temp_dir w3))))))))"

text \<open>The function as the module has it.\<close>

definition run_bulk_ocr_task_sync ::
  "env \<Rightarrow> bytes \<Rightarrow> SmalterDocumentType \<Rightarrow> CniLanguage option \<Rightarrow> world
   \<Rightarrow> (exn + json list) \<times> world" where
  "run_bulk_ocr_task_sync = run_bulk_ocr_task_sync_in module_globals"

subsection \<open>\<^verbatim>\<open>ocr_smalter_sync\<close>\<close>

text \<open>The \<^verbatim>\<open>try\<close> block of the single-file branch (lines 113 to 131).\<close>

definition single_try ::
  "env \<Rightarrow> SmalterDocumentType \<Rightarrow> string \<Rightarrow> bytes \<Rightarrow> CniLanguage option \<Rightarrow> world
   \<Rightarrow> (exn + json) \<times> world" where
  "single_try E image_type filename file_bytes lang w =
     (let w1 = emit (CreationDate filename) w in
      (case get_document_creation_date_sync E filename file_bytes of
         Inl e \<Rightarrow> (Inl e, w1)
       | Inr creation_date \<Rightarrow>
           (let file_extension = snd (splitext filename);
                file_type = file_type_of file_extension;
                w2 = emit (NamedTemporaryFile file_extension) w1
            in (case named_temporary_file E file_extension of
                  Inl e \<Rightarrow> (Inl e, w2)
                | Inr tmp_path \<Rightarrow>
                    (let w3 = emit (TmpWrite tmp_path) (create tmp_path w2) in
                     (case tmp_write E tmp_path file_bytes of
                        Inl e \<Rightarrow> (Inl e, w3)
                      | Inr _ \<Rightarrow>
                          (let w4 = emit (OcrSmalterHelper tmp_path) w3;
                               r = ocr_smalter_helper E tmp_path image_type lang;
                               w5 = delete tmp_path (emit (OsRemove tmp_path) w4)
                           in (case r of
                                 Inl e \<Rightarrow> (Inl e, w5)
                               | Inr ocr_result \<Rightarrow>
                                   (case add_language (is_cni_type image_type) lang
                                           [(''file_url'', JStr (file_url E image_type)),
                                            (''file_type'', JStr file_type),
                                            (''file_creation_date'', JStr creation_date)] of
                                      Inl e \<Rightarrow> (Inl e, w5)
                                    | Inr file_metadata \<Rightarrow>
                                        (Inr (final_response file_metadata
                                                (details_of ocr_result)), w5))))))))))"

definition lang_required_detail :: string where
  "lang_required_detail =
     ''The '' @ apostrophe @ ''lang'' @ apostrophe @ '' parameter is required for CNI documents.''"

definition bulk_unsupported_detail :: "env \<Rightarrow> SmalterDocumentType \<Rightarrow> string" where
  "bulk_unsupported_detail E image_type =
     ''Bulk processing for '' @ apostrophe @ type_value E image_type @ apostrophe
     @ '' is not supported.''"

definition ocr_smalter_sync_in ::
  "string list \<Rightarrow> env \<Rightarrow> SmalterDocumentType \<Rightarrow> string \<Rightarrow> bytes \<Rightarrow> CniLanguage option \<Rightarrow> world
   \<Rightarrow> (exn + json) \<times> world" where
  "ocr_smalter_sync_in g E image_type filename content lang w =
     (let is_cni = is_cni_type image_type in
      if is_cni \<and> lang = None then (Inl (HTTPException 400 lang_required_detail), w)
      else
        (let w1 = emit FileRead w; file_bytes = content in
         (if endswith (lower filename) ''.zip'' then
            (if image_type \<notin> set supported_bulk_types
             then (Inl (HTTPException 400 (bulk_unsupported_detail E image_type)), w1)
             else
               (case run_bulk_ocr_task_sync_in g E file_bytes image_type lang w1 of
                  (Inr bulk_results, w2) \<Rightarrow> (Inr (JList bulk_results), w2)
                | (Inl e, w2) \<Rightarrow>
                    (Inl (HTTPException 500 (''Bulk processing failed: '' @ str_exn E e)),
                     w2)))
          else
            (case single_try E image_type filename file_bytes lang w1 of
               (Inr resp, w2) \<Rightarrow> (Inr resp, w2)
             | (Inl e, w2) \<Rightarrow> (Inl (HTTPException 500 (str_exn E e)), w2)))))"

definition ocr_smalter_sync ::
  "env \<Rightarrow> SmalterDocumentType \<Rightarrow> string \<Rightarrow> bytes \<Rightarrow> CniLanguage option \<Rightarrow> world
   \<Rightarrow> (exn + json) \<times> world" where
  "ocr_smalter_sync = ocr_smalter_sync_in module_globals"

subsection \<open>\<^verbatim>\<open>extract_resume_fields\<close>\<close>

text \<open>The \<^verbatim>\<open>try\<close> block (lines 60 to 77).\<close>

definition resume_try :: "env \<Rightarrow> string \<Rightarrow> bytes \<Rightarrow> exn + json" where
  "resume_try E filename content =
     (case get_document_creation_date_sync E filename content of
        Inl e \<Rightarrow> Inl e
      | Inr creation_date \<Rightarrow>
          (let file_extension = snd (splitext filename);
               file_type = file_type_of file_extension
           in (case (if file_type = ''PDF'' then convert_from_bytes E content
                     else if file_type \<in> set [''PNG'', ''JPG'', ''JPEG'']
                     then (case image_open E content of
                             Inl e \<Rightarrow> Inl e
                           | Inr im \<Rightarrow> Inr [im])
                     else Inl (HTTPException 415
                                 (''Unsupported file type: '' @ file_type @ ''.''))) of
               Inl e \<Rightarrow> Inl e
             | Inr images \<Rightarrow>
                 (case images of
                    [] \<Rightarrow> Inl (HTTPException 422 ''Could not process file into an image.'')
                  | first_image # _ \<Rightarrow>
                      (case ocr_resume E first_image of
                         Inl e \<Rightarrow> Inl e
                       | Inr raw_output \<Rightarrow>
                           (case clean_zip_from_resume_entry E raw_output of
                              Inl e \<Rightarrow> Inl e
                            | Inr cleaned_json_string \<Rightarrow>
                                (case json_loads E cleaned_json_string of
                                   Inl e \<Rightarrow> Inl e
                                 | Inr ocr_result \<Rightarrow>
                                     Inr (final_response
                                            [(''file_url'', JStr ''/ocr/resume''),
                                             (''file_type'', JStr file_type),
                                             (''file_creation_date'', JStr creation_date)]
                                            (JList [ocr_result])))))))))"

text \<open>
  The endpoint: \<^verbatim>\<open>except Exception as e: raise HTTPException(status_code=500, detail=str(e))\<close>
  around the whole block. \<^verbatim>\<open>HTTPException\<close> is a subclass of \<^verbatim>\<open>Exception\<close>, so the
  handler also receives the exceptions the block raises itself.
\<close>

definition extract_resume_fields :: "env \<Rightarrow> string \<Rightarrow> bytes \<Rightarrow> exn + json" where
  "extract_resume_fields E filename content =
     (case resume_try E filename content of
        Inr resp \<Rightarrow> Inr resp
      | Inl e \<Rightarrow> Inl (HTTPException 500 (str_exn E e)))"

subsection \<open>Reading a response\<close>

text \<open>\<^verbatim>\<open>d[k]\<close> on a response dictionary, and the keys of a dictionary.\<close>

definition get_key :: "string \<Rightarrow> json \<Rightarrow> json option" where
  "get_key k j = (case j of JDict kvs \<Rightarrow> map_of kvs k | _ \<Rightarrow> None)"

definition keys_of :: "json \<Rightarrow> string list" where
  "keys_of j = (case j of JDict kvs \<Rightarrow> map fst kvs | _ \<Rightarrow> [])"

text \<open>Is a fragment of a bulk response the error fragment of line 187?\<close>

definition is_failure_fragment :: "json \<Rightarrow> bool" where
  "is_failure_fragment frag =
     (case get_key ''file_metadata'' frag of
        Some md \<Rightarrow> get_key ''error'' md = Some (JBool True)
      | None \<Rightarrow> False)"

text \<open>The file names of a listing that the inner loop does not skip.\<close>

definition supported_names :: "(string \<times> string list) list \<Rightarrow> string list" where
  "supported_names tree =
     filter (\<lambda>filename. endswith_any (lower filename) supported_extensions)
            (concat (map snd tree))"

text \<open>
  The entries the loops reach, in the order they reach them, and the fragment one
  entry leaves in \<^verbatim>\<open>all_results\<close>: the response of its \<^verbatim>\<open>try\<close> block or the error
  fragment of its handler.
\<close>

definition supported_entries :: "(string \<times> string list) list \<Rightarrow> (string \<times> string) list" where
  "supported_entries tree =
     concat (map (\<lambda>(root, files).
                    map (Pair root)
                        (filter (\<lambda>filename. endswith_any (lower filename) supported_extensions)
                                files))
                 tree)"

definition entry_fragment ::
  "env \<Rightarrow> SmalterDocumentType \<Rightarrow> CniLanguage option \<Rightarrow> string \<Rightarrow> string \<Rightarrow> json" where
  "entry_fragment E image_type lang root filename =
     (case fst (entry_try E image_type lang (path_join root filename) filename
                  \<lparr>live = [], trace = []\<rparr>) of
        Inr resp \<Rightarrow> resp
      | Inl e \<Rightarrow> error_fragment E filename e)"

text \<open>Does the \<^verbatim>\<open>try\<close> block of an entry raise?\<close>

definition entry_raises ::
  "env \<Rightarrow> SmalterDocumentType \<Rightarrow> CniLanguage option \<Rightarrow> string \<times> string \<Rightarrow> bool" where
  "entry_raises E image_type lang entry =
     (case entry of (root, filename) \<Rightarrow>
        (case fst (entry_try E image_type lang (path_join root filename) filename
                     \<lparr>live = [], trace = []\<rparr>) of
           Inl e \<Rightarrow> True
         | Inr resp \<Rightarrow> False))"

subsection \<open>A test double for the collaborators\<close>

text \<open>
  Decimal digits of a status code, for \<^verbatim>\<open>str(e)\<close> of an \<^verbatim>\<open>HTTPException\<close> in the
  test double (Starlette prints the status, a colon and the detail).
\<close>

function str_nat :: "nat \<Rightarrow> string" where
  "str_nat n =
     (if n < 10 then [''0123456789'' ! n]
      else str_nat (n div 10) @ [''0123456789'' ! (n mod 10)])"
  by pat_completeness auto
termination
  by (relation "measure (\<lambda>n. n)") auto

declare str_nat.simps [simp del]

text \<open>
  The double: the OCR helper fails on paths that end in \<^verbatim>\<open>b.jpg\<close>, answers with a
  list of two payloads for a work contract and with one payload otherwise; a temporary
  file is \<^verbatim>\<open>/tmp/tmpb\<close> and the suffix; the two bytes \<open>[80, 75]\<close> are the one well-formed archive, holding
  \<^verbatim>\<open>a.png\<close>, \<^verbatim>\<open>b.jpg\<close> and \<^verbatim>\<open>notes.txt\<close>; a PDF has no pages.
\<close>

definition demo_env :: env where
  "demo_env = \<lparr>
     type_value = (\<lambda>t. case t of
                          CNI_FRONT \<Rightarrow> ''cni_front''
                        | CNI_BACK \<Rightarrow> ''cni_back''
                        | WORK_CONTRACT \<Rightarrow> ''work_contract''
                        | OTHER_DOCUMENT n \<Rightarrow> n),
     http_exception_str = (\<lambda>s d. str_nat s @ '': '' @ d),
     get_document_creation_date_sync = (\<lambda>n b. Inr ''2024-01-01''),
     ocr_smalter_helper =
       (\<lambda>p t l. if endswith p ''b.jpg'' then Inl (Error ''model failed'')
                else if t = WORK_CONTRACT
                then Inr (JList [JDict [(''page'', JNum 1)], JDict [(''page'', JNum 2)]])
                else Inr (JDict [(''name'', JStr ''X'')])),
     named_temporary_file = (\<lambda>suffix. Inr (''/tmp/tmpb'' @ suffix)),
     tmp_write = (\<lambda>p b. Inr ()),
     temporary_directory = Inr ''/tmp/tmpdir'',
     extractall =
       (\<lambda>b d. if b = [80, 75] then Inr [(d, [''a.png'', ''b.jpg'', ''notes.txt''])]
               else Inl (Error ''File is not a zip file'')),
     open_read = (\<lambda>p. Inr []),
     convert_from_bytes = (\<lambda>b. Inr []),
     image_open = (\<lambda>b. Inr (Image b)),
     ocr_resume = (\<lambda>i. Inr ''{}''),
     clean_zip_from_resume_entry = (\<lambda>s. Inr s),
     json_loads = (\<lambda>s. Inr (JDict []))
   \<rparr>"

definition empty_world :: world where
  "empty_world = \<lparr>live = [], trace = []\<rparr>"

definition french :: CniLanguage where
  "french = CniLanguage ''fr''"

text \<open>The same double on a full disk: the write to the temporary file raises.\<close>

definition full_disk_env :: env where
  "full_disk_env =
     demo_env\<lparr>tmp_write := (\<lambda>p b. Inl (Error ''[Errno 28] No space left on device''))\<rparr>"

section \<open>The bulk loops\<close>

text \<open>
  What one entry answers does not depend on the world it runs in, and it creates and
  removes no temporary file.
\<close>

lemma entry_try_result_world:
  "fst (entry_try E t l p f w) = fst (entry_try E t l p f w')"
  by (simp add: entry_try_def Let_def split: sum.splits)

lemma entry_try_live: "live (snd (entry_try E t l p f w)) = live w"
  by (simp add: entry_try_def Let_def emit_def split: sum.splits)

lemma process_file_fst:
  "fst (process_file E t l root f (acc, w)) =
     (if endswith_any (lower f) supported_extensions
      then acc @ [entry_fragment E t l root f] else acc)"
  using entry_try_result_world [of E t l "path_join root f" f w "\<lparr>live = [], trace = []\<rparr>"]
  by (auto simp: process_file_def entry_fragment_def Let_def split: prod.splits sum.splits)

lemma process_file_live: "live (snd (process_file E t l root f (acc, w))) = live w"
  using entry_try_live [of E t l "path_join root f" f w]
  by (auto simp: process_file_def Let_def split: prod.splits sum.splits)

text \<open>The inner loop appends one fragment per supported name, in order.\<close>

lemma process_files_fst:
  "fst (process_files E t l root files (acc, w)) =
     acc @ map (entry_fragment E t l root)
               (filter (\<lambda>f. endswith_any (lower f) supported_extensions) files)"
proof (induction files arbitrary: acc w)
  case Nil
  show ?case by simp
next
  case (Cons f files)
  obtain acc' w' where st: "process_file E t l root f (acc, w) = (acc', w')"
    by (cases "process_file E t l root f (acc, w)")
  have "acc' = (if endswith_any (lower f) supported_extensions
                then acc @ [entry_fragment E t l root f] else acc)"
    using process_file_fst [of E t l root f acc w] st by simp
  then show ?case using Cons.IH [of acc' w'] st by simp
qed

lemma process_files_live:
  "live (snd (process_files E t l root files (acc, w))) = live w"
proof (induction files arbitrary: acc w)
  case Nil
  show ?case by simp
next
  case (Cons f files)
  obtain acc' w' where st: "process_file E t l root f (acc, w) = (acc', w')"
    by (cases "process_file E t l root f (acc, w)")
  have "live w' = live w"
    using process_file_live [of E t l root f acc w] st by simp
  then show ?case using Cons.IH [of acc' w'] st by simp
qed

text \<open>So does the outer loop, over the directories of the listing.\<close>

lemma process_walk_fst:
  "fst (process_walk E t l tree (acc, w)) =
     acc @ map (\<lambda>(root, f). entry_fragment E t l root f) (supported_entries tree)"
proof (induction tree arbitrary: acc w)
  case Nil
  show ?case by (simp add: supported_entries_def)
next
  case (Cons rf tree)
  obtain root files where rf: "rf = (root, files)" by (cases rf)
  obtain acc' w' where st: "process_files E t l root files (acc, w) = (acc', w')"
    by (cases "process_files E t l root files (acc, w)")
  have "acc' = acc @ map (entry_fragment E t l root)
                 (filter (\<lambda>f. endswith_any (lower f) supported_extensions) files)"
    using process_files_fst [of E t l root files acc w] st by simp
  then show ?case using Cons.IH [of acc' w'] st rf
    by (simp add: supported_entries_def comp_def)
qed

lemma process_walk_live:
  "live (snd (process_walk E t l tree (acc, w))) = live w"
proof (induction tree arbitrary: acc w)
  case Nil
  show ?case by simp
next
  case (Cons rf tree)
  obtain root files where rf: "rf = (root, files)" by (cases rf)
  obtain acc' w' where st: "process_files E t l root files (acc, w) = (acc', w')"
    by (cases "process_files E t l root files (acc, w)")
  have "live w' = live w"
    using process_files_live [of E t l root files acc w] st by simp
  then show ?case using Cons.IH [of acc' w'] st rf by simp
qed

lemma supported_entries_names: "map snd (supported_entries tree) = supported_names tree"
  by (induction tree) (auto simp: supported_entries_def supported_names_def comp_def)

section \<open>The bulk dispatcher\<close>

text \<open>
  Line 165 reads \<^verbatim>\<open>zipfile\<close>, which the module never imports: the read raises
  \<^verbatim>\<open>NameError\<close>, inside the \<^verbatim>\<open>with\<close> block of the temporary directory and before
  the loops. The function as the module has it therefore raises on every input.
\<close>

lemma zipfile_unbound:
  "load_global module_globals ''zipfile'' =
     Inl (Error (''name '' @ apostrophe @ ''zipfile'' @ apostrophe @ '' is not defined''))"
  by (simp add: load_global_def module_globals_def)

text \<open>
  The other globals that \<^verbatim>\<open>run_bulk_ocr_task_sync\<close> reads are bound (\<^verbatim>\<open>open\<close>,
  \<^verbatim>\<open>isinstance\<close>, \<^verbatim>\<open>list\<close>, \<^verbatim>\<open>str\<close> and \<^verbatim>\<open>Exception\<close> are builtins).
\<close>

lemma other_names_bound:
  "set [''tempfile'', ''io'', ''os'', ''get_document_creation_date_sync'',
        ''SmalterDocumentType'', ''ocr_smalter_helper''] \<subseteq> set module_globals"
  by (simp add: module_globals_def)

lemma bulk_always_raises:
  "\<exists>e. fst (run_bulk_ocr_task_sync E zip_bytes image_type lang w) = Inl e"
  by (simp add: run_bulk_ocr_task_sync_def run_bulk_ocr_task_sync_in_def zipfile_unbound
        Let_def split: sum.splits)

text \<open>
  With \<^verbatim>\<open>zipfile\<close> bound, the same code returns one fragment per supported entry of
  the listing, in the listing's order, a failing entry leaving its error fragment: the
  missing import is all that separates the function from what is said of it.
\<close>

lemma bulk_when_zipfile_bound:
  assumes "''zipfile'' \<in> set g" and "temporary_directory E = Inr temp_dir"
    and "extractall E zip_bytes temp_dir = Inr tree"
  shows "fst (run_bulk_ocr_task_sync_in g E zip_bytes image_type lang w) =
           Inr (map (\<lambda>(root, f). entry_fragment E image_type lang root f)
                    (supported_entries tree))"
  using assms
    process_walk_fst [of E image_type lang tree "[]"
      "emit (ExtractAll temp_dir) (create temp_dir (emit TemporaryDirectory w))"]
  by (simp add: run_bulk_ocr_task_sync_in_def load_global_def Let_def case_prod_beta)

lemma add_language_no_error:
  "add_language b lang md = Inr md' \<Longrightarrow> map_of md ''error'' = None \<Longrightarrow>
     map_of md' ''error'' = None"
  by (auto simp: add_language_def split: if_splits option.splits)

lemma entry_try_success_not_failure:
  assumes "fst (entry_try E t lang path fn w) = Inr resp"
  shows "\<not> is_failure_fragment resp"
  using assms
  by (auto simp: entry_try_def Let_def is_failure_fragment_def get_key_def final_response_def
        split: sum.splits dest!: add_language_no_error)

lemma error_fragment_is_failure: "is_failure_fragment (error_fragment E fn e)"
  by (simp add: error_fragment_def is_failure_fragment_def get_key_def)

lemma error_fragment_shape:
  "get_key ''file_metadata'' (error_fragment E fn e) =
     Some (JDict [(''source_file'', JStr fn), (''error'', JBool True)])
   \<and> get_key ''details'' (error_fragment E fn e) = Some (JList [JStr (str_exn E e)])"
  by (simp add: error_fragment_def get_key_def)

lemma entry_fragment_failure:
  "is_failure_fragment (entry_fragment E t lang root fn) \<longleftrightarrow> entry_raises E t lang (root, fn)"
  using entry_try_success_not_failure [of E t lang "path_join root fn" fn
      "\<lparr>live = [], trace = []\<rparr>"]
  by (auto simp: entry_fragment_def entry_raises_def error_fragment_is_failure
        split: sum.splits)

text \<open>
  Still with \<^verbatim>\<open>zipfile\<close> bound: as many fragments as supported names, and as many
  error fragments among them as entries that raise, so one failure among N entries
  leaves N fragments, one of them the failure.
\<close>

lemma bulk_failures_when_zipfile_bound:
  assumes "''zipfile'' \<in> set g" and "temporary_directory E = Inr temp_dir"
    and "extractall E zip_bytes temp_dir = Inr tree"
    and "fst (run_bulk_ocr_task_sync_in g E zip_bytes image_type lang w) = Inr frags"
  shows "length frags = length (supported_names tree)
       \<and> length (filter is_failure_fragment frags) =
           length (filter (entry_raises E image_type lang) (supported_entries tree))"
proof -
  have f: "frags = map (\<lambda>(root, f). entry_fragment E image_type lang root f)
                      (supported_entries tree)"
    using bulk_when_zipfile_bound [OF assms(1-3), of image_type lang w] assms(4) by simp
  have a: "length frags = length (supported_names tree)"
    using f supported_entries_names [of tree] by (metis length_map)
  have "filter is_failure_fragment frags =
          map (\<lambda>(root, f). entry_fragment E image_type lang root f)
              (filter (entry_raises E image_type lang) (supported_entries tree))"
    unfolding f filter_map
    by (rule arg_cong [where f = "map _"], rule filter_cong)
       (auto simp: entry_fragment_failure)
  then show ?thesis using a by simp
qed

lemma bulk_when_zipfile_bound_example:
  "fst (run_bulk_ocr_task_sync_in (''zipfile'' # module_globals) demo_env [80, 75] CNI_FRONT
          (Some french) empty_world) =
     Inr [final_response
            [(''source_file'', JStr ''a.png''), (''file_url'', JStr ''/ocr/smalter/cni_front''),
             (''file_type'', JStr ''PNG''), (''file_creation_date'', JStr ''2024-01-01''),
             (''language'', JStr ''fr'')]
            (JList [JDict [(''name'', JStr ''X'')]]),
          error_fragment demo_env ''b.jpg'' (Error ''model failed'')]"
  by code_simp

text \<open>
  Claim C1: when classification or OCR of one entry raises, the dispatcher appends the
  error fragment of that entry and goes on, so that an archive with N supported
  entries of which one fails yields N fragments, one of them the failure. On the
  archive with \<^verbatim>\<open>a.png\<close>, \<^verbatim>\<open>b.jpg\<close> (whose OCR raises) and \<^verbatim>\<open>notes.txt\<close> the function
  returns no fragment at all: it raises \<^verbatim>\<open>NameError\<close> before the first entry, having
  created and removed the temporary directory.
\<close>

theorem bulk_one_failing_entry_example:
  "run_bulk_ocr_task_sync demo_env [80, 75] CNI_FRONT (Some french) empty_world =
     (Inl (Error (''name '' @ apostrophe @ ''zipfile'' @ apostrophe @ '' is not defined'')),
      \<lparr>live = [], trace = [TemporaryDirectory, Cleanup ''/tmp/tmpdir'']\<rparr>)"
  by code_simp

text \<open>
  Claim C2: an archive with N supported and M unsupported files yields exactly N
  fragments, in enumeration order. The request of the spec's example (a ZIP with
  \<^verbatim>\<open>a.png\<close>, \<^verbatim>\<open>b.jpg\<close> and \<^verbatim>\<open>notes.txt\<close>, identity front, a language given) is
  answered with status 500 and no fragment, for the same \<^verbatim>\<open>NameError\<close>.
\<close>

theorem bulk_request_example:
  "ocr_smalter_sync demo_env CNI_FRONT ''docs.zip'' [80, 75] (Some french) empty_world =
     (Inl (HTTPException 500
             (''Bulk processing failed: name '' @ apostrophe @ ''zipfile'' @ apostrophe
              @ '' is not defined'')),
      \<lparr>live = [], trace = [FileRead, TemporaryDirectory, Cleanup ''/tmp/tmpdir'']\<rparr>)"
  by code_simp

section \<open>The resume endpoint\<close>

text \<open>
  Whatever the \<^verbatim>\<open>try\<close> block raises, the handler of line 78 turns into a status 500:
  no failure of the endpoint carries another status.
\<close>

lemma resume_failure_status:
  "extract_resume_fields E filename content = Inl (HTTPException s d) \<Longrightarrow> s = 500"
  by (auto simp: extract_resume_fields_def split: sum.splits)

lemma resume_unsupported_type:
  assumes "get_document_creation_date_sync E filename content = Inr creation_date"
    and "file_type_of (snd (splitext filename)) \<notin> set [''PDF'', ''PNG'', ''JPG'', ''JPEG'']"
  shows "extract_resume_fields E filename content =
           Inl (HTTPException 500
                  (http_exception_str E 415
                     (''Unsupported file type: '' @ file_type_of (snd (splitext filename))
                      @ ''.'')))"
  using assms by (simp add: extract_resume_fields_def resume_try_def str_exn_def Let_def)

lemma resume_no_image:
  assumes "get_document_creation_date_sync E filename content = Inr creation_date"
    and "file_type_of (snd (splitext filename)) = ''PDF''"
    and "convert_from_bytes E content = Inr []"
  shows "extract_resume_fields E filename content =
           Inl (HTTPException 500
                  (http_exception_str E 422 ''Could not process file into an image.''))"
  using assms by (simp add: extract_resume_fields_def resume_try_def str_exn_def Let_def)

lemma resume_no_image_example:
  "extract_resume_fields demo_env ''cv.pdf'' [1] =
     Inl (HTTPException 500 ''422: Could not process file into an image.'')"
  by code_simp

text \<open>
  Claim C6: a single-document request whose file extension is not a recognised type
  fails with status 415, and a file that yields no image fails with status 422, and
  these statuses reach the caller. The code raises both inside the \<^verbatim>\<open>try\<close> block
  whose handler catches every \<^verbatim>\<open>Exception\<close>, so the caller receives status 500, with
  the text of the 415 as its detail: here for the upload \<^verbatim>\<open>cv.txt\<close>.
\<close>

theorem resume_unsupported_type_example:
  "extract_resume_fields demo_env ''cv.txt'' [1] =
     Inl (HTTPException 500 ''415: Unsupported file type: TXT.'')"
  by code_simp

section \<open>The smalter endpoint\<close>

subsection \<open>Auxiliary facts\<close>

lemma is_cni_type_iff: "is_cni_type t \<longleftrightarrow> t = CNI_FRONT \<or> t = CNI_BACK"
  by (auto simp: is_cni_type_def)

lemma details_differ: "bulk_unsupported_detail E t \<noteq> lang_required_detail"
  by (simp add: bulk_unsupported_detail_def lang_required_detail_def)

lemma endswith_docs_ZIP: "endswith (lower ''docs.ZIP'') ''.zip''"
  by (simp add: endswith_def lower_def lower_char_def)

lemma not_zip_c_pdf: "\<not> endswith (lower ''c.pdf'') ''.zip''"
  by (simp add: endswith_def lower_def lower_char_def)

lemma get_details: "get_key ''details'' (final_response md d) = Some d"
  by (simp add: get_key_def final_response_def)

lemma get_metadata: "get_key ''file_metadata'' (final_response md d) = Some (JDict md)"
  by (simp add: get_key_def final_response_def)

lemma add_language_keys:
  "add_language b lang md = Inr md' \<Longrightarrow> ''language'' \<notin> fst ` set md \<Longrightarrow>
     (''language'' \<in> fst ` set md' \<longleftrightarrow> b)"
  by (auto simp: add_language_def split: if_splits option.splits)

text \<open>The shape of a successful response, of a single document and of a bulk entry.\<close>

lemma single_try_response:
  assumes "fst (single_try E t fn c lang w) = Inr resp"
  shows "\<exists>p ocr md. ocr_smalter_helper E p t lang = Inr ocr
           \<and> resp = final_response md (details_of ocr)
           \<and> (''language'' \<in> fst ` set md \<longleftrightarrow> is_cni_type t)"
  using assms
  by (auto simp: single_try_def Let_def split: sum.splits dest!: add_language_keys)

lemma entry_try_response:
  assumes "fst (entry_try E t lang path fn w) = Inr resp"
  shows "\<exists>ocr md. ocr_smalter_helper E path t lang = Inr ocr
           \<and> resp = final_response md (details_of ocr)
           \<and> (''language'' \<in> fst ` set md \<longleftrightarrow> is_cni_type t)"
  using assms
  by (auto simp: entry_try_def Let_def split: sum.splits dest!: add_language_keys)

lemma smalter_single_response:
  assumes "fst (ocr_smalter_sync E t fn c lang w) = Inr resp"
    and "\<not> endswith (lower fn) ''.zip''"
  shows "fst (single_try E t fn c lang (emit FileRead w)) = Inr resp"
  using assms
  by (auto simp: ocr_smalter_sync_def ocr_smalter_sync_in_def Let_def
        split: if_splits prod.splits sum.splits)

subsection \<open>Runs of the endpoint on the test double\<close>

lemma single_ocr_failure_example:
  "ocr_smalter_sync demo_env CNI_FRONT ''b.jpg'' [1] (Some french) empty_world =
     (Inl (HTTPException 500 ''model failed''),
      \<lparr>live = [],
        trace = [FileRead, CreationDate ''b.jpg'', NamedTemporaryFile ''.jpg'',
                 TmpWrite ''/tmp/tmpb.jpg'', OcrSmalterHelper ''/tmp/tmpb.jpg'',
                 OsRemove ''/tmp/tmpb.jpg'']\<rparr>)"
  by code_simp

lemma single_work_contract_example:
  "ocr_smalter_sync demo_env WORK_CONTRACT ''c.pdf'' [80, 75] (Some french) empty_world =
     (Inr (final_response
             [(''file_url'', JStr ''/ocr/smalter/work_contract''), (''file_type'', JStr ''PDF''),
              (''file_creation_date'', JStr ''2024-01-01'')]
             (JList [JDict [(''page'', JNum 1)], JDict [(''page'', JNum 2)]])),
      \<lparr>live = [],
        trace = [FileRead, CreationDate ''c.pdf'', NamedTemporaryFile ''.pdf'',
                 TmpWrite ''/tmp/tmpb.pdf'', OcrSmalterHelper ''/tmp/tmpb.pdf'',
                 OsRemove ''/tmp/tmpb.pdf'']\<rparr>)"
  by code_simp

lemma single_identity_example:
  "fst (ocr_smalter_sync demo_env CNI_BACK ''id.png'' [1] (Some french) empty_world) =
     Inr (final_response
            [(''file_url'', JStr ''/ocr/smalter/cni_back''), (''file_type'', JStr ''PNG''),
             (''file_creation_date'', JStr ''2024-01-01''), (''language'', JStr ''fr'')]
            (JList [JDict [(''name'', JStr ''X'')]]))"
  by code_simp

lemma entry_identity_example:
  "fst (entry_try demo_env CNI_FRONT (Some french) ''/tmp/tmpdir/a.png'' ''a.png'' empty_world) =
     Inr (final_response
            [(''source_file'', JStr ''a.png''), (''file_url'', JStr ''/ocr/smalter/cni_front''),
             (''file_type'', JStr ''PNG''), (''file_creation_date'', JStr ''2024-01-01''),
             (''language'', JStr ''fr'')]
            (JList [JDict [(''name'', JStr ''X'')]]))"
  by code_simp

lemma entry_work_contract_example:
  "fst (entry_try demo_env WORK_CONTRACT (Some french) ''/tmp/tmpdir/c.pdf'' ''c.pdf''
          empty_world) =
     Inr (final_response
            [(''source_file'', JStr ''c.pdf''),
             (''file_url'', JStr ''/ocr/smalter/work_contract''),
             (''file_type'', JStr ''PDF''), (''file_creation_date'', JStr ''2024-01-01'')]
            (JList [JDict [(''page'', JNum 1)], JDict [(''page'', JNum 2)]]))"
  by code_simp

text \<open>
  A write to the temporary file that raises leaves the file behind: it was created
  with \<^verbatim>\<open>delete=False\<close>, and the \<^verbatim>\<open>finally\<close> of line 123 guards the OCR call only.
\<close>

lemma single_write_failure_leaves_file:
  assumes "get_document_creation_date_sync E fn c = Inr creation_date"
    and "named_temporary_file E (snd (splitext fn)) = Inr tmp_path"
    and "tmp_write E tmp_path c = Inl e"
  shows "tmp_path \<in> set (live (snd (single_try E t fn c lang w)))"
  using assms by (simp add: single_try_def Let_def emit_def create_def)

lemma single_write_failure_request:
  assumes "\<not> (is_cni_type t \<and> lang = None)" and "\<not> endswith (lower fn) ''.zip''"
    and "get_document_creation_date_sync E fn c = Inr creation_date"
    and "named_temporary_file E (snd (splitext fn)) = Inr tmp_path"
    and "tmp_write E tmp_path c = Inl e"
  shows "ocr_smalter_sync E t fn c lang w =
           (Inl (HTTPException 500 (str_exn E e)),
            w\<lparr>live := tmp_path # live w,
              trace := trace w @ [FileRead, CreationDate fn,
                                  NamedTemporaryFile (snd (splitext fn)),
                                  TmpWrite tmp_path]\<rparr>)"
  using assms
  by (simp add: ocr_smalter_sync_def ocr_smalter_sync_in_def single_try_def Let_def emit_def
        create_def)

subsection \<open>Validation\<close>

text \<open>
  Claim C4: the 400 of the language check is raised exactly when the selector is
  \<open>CNI_FRONT\<close> or \<open>CNI_BACK\<close> and no language is given; for the other selectors a missing
  language never raises it; and when it is raised the world is untouched: the upload
  has not been read, no temporary file exists, no collaborator has been called.
\<close>

theorem lang_validation:
  "(fst (ocr_smalter_sync E t fn c lang w) = Inl (HTTPException 400 lang_required_detail)
      \<longleftrightarrow> (t = CNI_FRONT \<or> t = CNI_BACK) \<and> lang = None)
   \<and> ((t = CNI_FRONT \<or> t = CNI_BACK) \<and> lang = None
        \<longrightarrow> snd (ocr_smalter_sync E t fn c lang w) = w)"
  by (auto simp: ocr_smalter_sync_def ocr_smalter_sync_in_def is_cni_type_iff Let_def
        details_differ split: prod.splits sum.splits)

theorem lang_validation_witness:
  "fst (ocr_smalter_sync demo_env CNI_BACK ''id.png'' [1] None empty_world)
     = Inl (HTTPException 400 lang_required_detail)
   \<and> snd (ocr_smalter_sync demo_env CNI_BACK ''id.png'' [1] None empty_world) = empty_world
   \<and> fst (ocr_smalter_sync demo_env WORK_CONTRACT ''c.pdf'' [1] None empty_world)
     \<noteq> Inl (HTTPException 400 lang_required_detail)"
  using lang_validation [of demo_env CNI_BACK "''id.png''" "[1]" None empty_world]
    lang_validation [of demo_env WORK_CONTRACT "''c.pdf''" "[1]" None empty_world]
  by simp

text \<open>
  Claim C5: a request whose file name ends in \<^verbatim>\<open>.zip\<close> and whose selector is none of
  \<open>CNI_FRONT\<close>, \<open>CNI_BACK\<close>, \<open>WORK_CONTRACT\<close> fails with status 400 when nothing but the
  read of the upload has happened; for the three selectors (the language check passed)
  the endpoint calls the bulk function and answers with what it returns or with its
  failure.
\<close>

theorem bulk_eligibility:
  assumes "endswith (lower fn) ''.zip''"
  shows "(t \<noteq> CNI_FRONT \<and> t \<noteq> CNI_BACK \<and> t \<noteq> WORK_CONTRACT \<longrightarrow>
            ocr_smalter_sync E t fn c lang w =
              (Inl (HTTPException 400 (bulk_unsupported_detail E t)), emit FileRead w))
       \<and> ((t = CNI_FRONT \<or> t = CNI_BACK) \<and> lang \<noteq> None \<or> t = WORK_CONTRACT \<longrightarrow>
            ocr_smalter_sync E t fn c lang w =
              (case run_bulk_ocr_task_sync E c t lang (emit FileRead w) of
                 (Inr bulk_results, w2) \<Rightarrow> (Inr (JList bulk_results), w2)
               | (Inl e, w2) \<Rightarrow>
                   (Inl (HTTPException 500 (''Bulk processing failed: '' @ str_exn E e)), w2)))"
  using assms
  by (auto simp: ocr_smalter_sync_def run_bulk_ocr_task_sync_def ocr_smalter_sync_in_def
        is_cni_type_iff supported_bulk_types_def Let_def)

theorem bulk_eligibility_witness:
  "endswith (lower ''docs.ZIP'') ''.zip''
   \<and> ocr_smalter_sync demo_env (OTHER_DOCUMENT ''resume'') ''docs.ZIP'' [80, 75] None empty_world =
       (Inl (HTTPException 400
               (''Bulk processing for '' @ apostrophe @ ''resume'' @ apostrophe
                @ '' is not supported.'')),
        \<lparr>live = [], trace = [FileRead]\<rparr>)
   \<and> ocr_smalter_sync demo_env WORK_CONTRACT ''docs.ZIP'' [80, 75] None empty_world =
       (case run_bulk_ocr_task_sync demo_env [80, 75] WORK_CONTRACT None
               \<lparr>live = [], trace = [FileRead]\<rparr> of
          (Inr bulk_results, w2) \<Rightarrow> (Inr (JList bulk_results), w2)
        | (Inl e, w2) \<Rightarrow>
            (Inl (HTTPException 500 (''Bulk processing failed: '' @ str_exn demo_env e)), w2))"
  using bulk_eligibility [OF endswith_docs_ZIP, of "OTHER_DOCUMENT ''resume''" demo_env
      "[80, 75]" None empty_world]
    bulk_eligibility [OF endswith_docs_ZIP, of WORK_CONTRACT demo_env "[80, 75]" None
      empty_world]
    endswith_docs_ZIP
  by (simp add: bulk_unsupported_detail_def demo_env_def emit_def empty_world_def)

subsection \<open>Archives that cannot be read\<close>

text \<open>
  Claim C7: a bulk request whose bytes are not a well-formed archive fails as a whole,
  with status 500, before any entry is processed and with no fragment in the answer.
  The theorem holds for every set of module names \<open>g\<close>: with \<^verbatim>\<open>zipfile\<close> bound the
  failure is the one of the extraction, and as the module stands it is the
  \<^verbatim>\<open>NameError\<close>. The trace shows the calls made: no file of the archive is opened and
  the OCR helper is not called.
\<close>

theorem malformed_archive_fails_request:
  assumes "endswith (lower fn) ''.zip''"
    and "t \<in> set supported_bulk_types"
    and "\<not> (is_cni_type t \<and> lang = None)"
    and "temporary_directory E = Inr temp_dir"
    and "extractall E c temp_dir = Inl e"
  shows "ocr_smalter_sync_in g E t fn c lang w =
           (Inl (HTTPException 500
                   (''Bulk processing failed: '' @
                    str_exn E (case load_global g ''zipfile'' of
                                 Inl name_error \<Rightarrow> name_error
                               | Inr _ \<Rightarrow> e))),
            w\<lparr>live := removeAll temp_dir (live w),
              trace := trace w @ [FileRead, TemporaryDirectory]
                       @ (if ''zipfile'' \<in> set g then [ExtractAll temp_dir] else [])
                       @ [Cleanup temp_dir]\<rparr>)"
  using assms
  by (simp add: ocr_smalter_sync_in_def run_bulk_ocr_task_sync_in_def load_global_def Let_def
        cleanup_def delete_def emit_def create_def)

theorem malformed_archive_fails_request_witness:
  "ocr_smalter_sync demo_env WORK_CONTRACT ''docs.ZIP'' [1] None empty_world =
     (Inl (HTTPException 500
             (''Bulk processing failed: name '' @ apostrophe @ ''zipfile'' @ apostrophe
              @ '' is not defined'')),
      \<lparr>live = [], trace = [FileRead, TemporaryDirectory, Cleanup ''/tmp/tmpdir'']\<rparr>)
   \<and> ocr_smalter_sync_in (''zipfile'' # module_globals) demo_env WORK_CONTRACT ''docs.ZIP'' [1]
       None empty_world =
     (Inl (HTTPException 500 ''Bulk processing failed: File is not a zip file''),
      \<lparr>live = [],
        trace = [FileRead, TemporaryDirectory, ExtractAll ''/tmp/tmpdir'',
                 Cleanup ''/tmp/tmpdir'']\<rparr>)"
proof -
  have t: "WORK_CONTRACT \<in> set supported_bulk_types"
    by (simp add: supported_bulk_types_def)
  have l: "\<not> (is_cni_type WORK_CONTRACT \<and> (None :: CniLanguage option) = None)"
    by (simp add: is_cni_type_def)
  have d: "temporary_directory demo_env = Inr ''/tmp/tmpdir''"
    by (simp add: demo_env_def)
  have x: "extractall demo_env [1] ''/tmp/tmpdir'' = Inl (Error ''File is not a zip file'')"
    by (simp add: demo_env_def)
  show ?thesis
    using malformed_archive_fails_request [OF endswith_docs_ZIP t l d x,
        of module_globals empty_world]
      malformed_archive_fails_request [OF endswith_docs_ZIP t l d x,
        of "''zipfile'' # module_globals" empty_world]
    by (simp add: ocr_smalter_sync_def load_global_def module_globals_def str_exn_def
          empty_world_def)
qed

subsection \<open>Temporary storage\<close>

text \<open>
  What the code does remove. The scratch directory of a bulk call does not exist any
  more when the call ends, whether the entries succeed, fail, or the extraction raises
  (for every set of module names, so also as the module stands, where the call ends in
  \<^verbatim>\<open>NameError\<close>). The temporary file of a single document does not exist any more when
  the request ends, whatever the OCR helper does, provided the write to it succeeded.
\<close>

lemma scratch_storage_removed:
  "(temporary_directory E = Inr temp_dir \<longrightarrow>
      temp_dir \<notin> set (live (snd (run_bulk_ocr_task_sync_in g E zip_bytes t lang w))))
   \<and> (named_temporary_file E (snd (splitext fn)) = Inr tmp_path
       \<and> tmp_write E tmp_path c = Inr () \<and> tmp_path \<notin> set (live w) \<longrightarrow>
      tmp_path \<notin> set (live (snd (ocr_smalter_sync_in g E t fn c lang w))))"
proof (intro conjI impI)
  assume d: "temporary_directory E = Inr temp_dir"
  show "temp_dir \<notin> set (live (snd (run_bulk_ocr_task_sync_in g E zip_bytes t lang w)))"
    using d
    by (simp add: run_bulk_ocr_task_sync_in_def Let_def cleanup_def delete_def emit_def
          case_prod_beta split: sum.splits)
next
  assume h: "named_temporary_file E (snd (splitext fn)) = Inr tmp_path
       \<and> tmp_write E tmp_path c = Inr () \<and> tmp_path \<notin> set (live w)"
  have bulk:
    "tmp_path \<notin> set (live (snd (run_bulk_ocr_task_sync_in g E c t lang (emit FileRead w))))"
    using h process_walk_live [of E t lang _ "[]"]
    by (auto simp: run_bulk_ocr_task_sync_in_def Let_def cleanup_def delete_def emit_def
          create_def case_prod_beta split: sum.splits)
  have single: "tmp_path \<notin> set (live (snd (single_try E t fn c lang (emit FileRead w))))"
    using h
    by (auto simp: single_try_def Let_def delete_def emit_def create_def split: sum.splits)
  show "tmp_path \<notin> set (live (snd (ocr_smalter_sync_in g E t fn c lang w)))"
    using h bulk single
    by (auto simp: ocr_smalter_sync_in_def Let_def emit_def split: prod.splits sum.splits)
qed

lemma scratch_storage_removed_example:
  "temporary_directory demo_env = Inr ''/tmp/tmpdir''
   \<and> ''/tmp/tmpdir'' \<notin> set (live (snd (run_bulk_ocr_task_sync_in (''zipfile'' # module_globals)
         demo_env [80, 75] CNI_FRONT (Some french) empty_world)))
   \<and> ''/tmp/tmpdir'' \<notin> set (live (snd (run_bulk_ocr_task_sync_in module_globals
         demo_env [80, 75] CNI_FRONT (Some french) empty_world)))
   \<and> named_temporary_file demo_env (snd (splitext ''b.jpg'')) = Inr ''/tmp/tmpb.jpg''
   \<and> tmp_write demo_env ''/tmp/tmpb.jpg'' [1] = Inr ()
   \<and> ''/tmp/tmpb.jpg'' \<notin> set (live empty_world)
   \<and> ''/tmp/tmpb.jpg'' \<notin> set (live (snd (ocr_smalter_sync_in module_globals demo_env CNI_FRONT
         ''b.jpg'' [1] (Some french) empty_world)))"
proof -
  have d: "temporary_directory demo_env = Inr ''/tmp/tmpdir''"
    by (simp add: demo_env_def)
  have n: "named_temporary_file demo_env (snd (splitext ''b.jpg'')) = Inr ''/tmp/tmpb.jpg''"
    by code_simp
  have x: "tmp_write demo_env ''/tmp/tmpb.jpg'' [1] = Inr ()"
    by (simp add: demo_env_def)
  have f: "''/tmp/tmpb.jpg'' \<notin> set (live empty_world)"
    by (simp add: empty_world_def)
  show ?thesis
    using d n x f
      scratch_storage_removed [of demo_env "''/tmp/tmpdir''" "''zipfile'' # module_globals"
        "[80, 75]" CNI_FRONT "Some french" empty_world "''b.jpg''" "''/tmp/tmpb.jpg''" "[1]"]
      scratch_storage_removed [of demo_env "''/tmp/tmpdir''" module_globals
        "[80, 75]" CNI_FRONT "Some french" empty_world "''b.jpg''" "''/tmp/tmpb.jpg''" "[1]"]
    by simp
qed

text \<open>
  Claim C3: the scratch directory of a bulk call is removed when the call ends, and
  the temporary file of a single-document request is removed on every exit path. The
  first holds (lemma \<open>scratch_storage_removed\<close>). The second does not: the file is
  created with \<^verbatim>\<open>delete=False\<close> at line 117 and written at line 118, outside the
  \<^verbatim>\<open>try\<close> whose \<^verbatim>\<open>finally\<close> removes it, so when the write raises the request ends
  with status 500 and the file is still there. Here for the upload \<^verbatim>\<open>c.pdf\<close> on a full
  disk: the trace ends with the write, no \<open>OsRemove\<close> follows, and the file is live.
\<close>

theorem temp_file_left_behind_example:
  "ocr_smalter_sync full_disk_env WORK_CONTRACT ''c.pdf'' [1] None empty_world =
     (Inl (HTTPException 500 ''[Errno 28] No space left on device''),
      \<lparr>live = [''/tmp/tmpb.pdf''],
        trace = [FileRead, CreationDate ''c.pdf'', NamedTemporaryFile ''.pdf'',
                 TmpWrite ''/tmp/tmpb.pdf'']\<rparr>)"
  by code_simp

subsection \<open>The shape of a successful response\<close>

text \<open>
  Claim C8: in every successful response for one document, of the single path and of
  a bulk entry alike, \<^verbatim>\<open>details\<close> is a list: the OCR helper's answer itself when that
  is a list, and the one-element list of the answer otherwise.
\<close>

theorem details_normalised:
  "(fst (ocr_smalter_sync E t fn c lang w) = Inr resp \<and> \<not> endswith (lower fn) ''.zip'' \<longrightarrow>
      (\<exists>p ocr. ocr_smalter_helper E p t lang = Inr ocr
         \<and> get_key ''details'' resp =
             Some (case ocr of JList payloads \<Rightarrow> JList payloads | _ \<Rightarrow> JList [ocr])))
   \<and> (fst (entry_try E t lang path filename w) = Inr frag \<longrightarrow>
      (\<exists>ocr. ocr_smalter_helper E path t lang = Inr ocr
         \<and> get_key ''details'' frag =
             Some (case ocr of JList payloads \<Rightarrow> JList payloads | _ \<Rightarrow> JList [ocr])))"
proof (intro conjI impI)
  assume h: "fst (ocr_smalter_sync E t fn c lang w) = Inr resp
               \<and> \<not> endswith (lower fn) ''.zip''"
  then have "fst (single_try E t fn c lang (emit FileRead w)) = Inr resp"
    using smalter_single_response by blast
  then obtain p ocr md where o: "ocr_smalter_helper E p t lang = Inr ocr"
    and r: "resp = final_response md (details_of ocr)"
    using single_try_response by blast
  have "get_key ''details'' resp =
          Some (case ocr of JList payloads \<Rightarrow> JList payloads | _ \<Rightarrow> JList [ocr])"
    using r by (simp add: get_details details_of_def split: json.splits)
  with o show "\<exists>p ocr. ocr_smalter_helper E p t lang = Inr ocr
         \<and> get_key ''details'' resp =
             Some (case ocr of JList payloads \<Rightarrow> JList payloads | _ \<Rightarrow> JList [ocr])"
    by blast
next
  assume "fst (entry_try E t lang path filename w) = Inr frag"
  then obtain ocr md where o: "ocr_smalter_helper E path t lang = Inr ocr"
    and r: "frag = final_response md (details_of ocr)"
    using entry_try_response by blast
  have "get_key ''details'' frag =
          Some (case ocr of JList payloads \<Rightarrow> JList payloads | _ \<Rightarrow> JList [ocr])"
    using r by (simp add: get_details details_of_def split: json.splits)
  with o show "\<exists>ocr. ocr_smalter_helper E path t lang = Inr ocr
         \<and> get_key ''details'' frag =
             Some (case ocr of JList payloads \<Rightarrow> JList payloads | _ \<Rightarrow> JList [ocr])"
    by blast
qed

text \<open>
  On the test double: the work contract uploaded as \<^verbatim>\<open>c.pdf\<close>, whose OCR answer is a
  list of two payloads, and the entry \<^verbatim>\<open>a.png\<close> of an archive, whose OCR answer is one
  payload.
\<close>

theorem details_normalised_witness:
  "get_key ''details''
     (final_response
        [(''file_url'', JStr ''/ocr/smalter/work_contract''), (''file_type'', JStr ''PDF''),
         (''file_creation_date'', JStr ''2024-01-01'')]
        (JList [JDict [(''page'', JNum 1)], JDict [(''page'', JNum 2)]]))
     = Some (JList [JDict [(''page'', JNum 1)], JDict [(''page'', JNum 2)]])
   \<and> get_key ''details''
       (final_response
          [(''source_file'', JStr ''a.png''), (''file_url'', JStr ''/ocr/smalter/cni_front''),
           (''file_type'', JStr ''PNG''), (''file_creation_date'', JStr ''2024-01-01''),
           (''language'', JStr ''fr'')]
          (JList [JDict [(''name'', JStr ''X'')]]))
     = Some (JList [JDict [(''name'', JStr ''X'')]])"
proof -
  let ?resp = "final_response
        [(''file_url'', JStr ''/ocr/smalter/work_contract''), (''file_type'', JStr ''PDF''),
         (''file_creation_date'', JStr ''2024-01-01'')]
        (JList [JDict [(''page'', JNum 1)], JDict [(''page'', JNum 2)]])"
  let ?frag = "final_response
          [(''source_file'', JStr ''a.png''), (''file_url'', JStr ''/ocr/smalter/cni_front''),
           (''file_type'', JStr ''PNG''), (''file_creation_date'', JStr ''2024-01-01''),
           (''language'', JStr ''fr'')]
          (JList [JDict [(''name'', JStr ''X'')]])"
  have r: "fst (ocr_smalter_sync demo_env WORK_CONTRACT ''c.pdf'' [80, 75] (Some french)
                  empty_world) = Inr ?resp"
    using single_work_contract_example by simp
  obtain p ocr where o: "ocr_smalter_helper demo_env p WORK_CONTRACT (Some french) = Inr ocr"
    and k: "get_key ''details'' ?resp =
              Some (case ocr of JList payloads \<Rightarrow> JList payloads | _ \<Rightarrow> JList [ocr])"
    using details_normalised [where E = demo_env and t = WORK_CONTRACT and fn = "''c.pdf''"
        and c = "[80, 75]" and lang = "Some french" and w = empty_world and resp = ?resp]
      r not_zip_c_pdf
    by blast
  have "ocr = JList [JDict [(''page'', JNum 1)], JDict [(''page'', JNum 2)]]"
    using o by (simp add: demo_env_def split: if_splits)
  with k have first: "get_key ''details'' ?resp =
      Some (JList [JDict [(''page'', JNum 1)], JDict [(''page'', JNum 2)]])"
    by simp
  obtain ocr' where o': "ocr_smalter_helper demo_env ''/tmp/tmpdir/a.png'' CNI_FRONT
                           (Some french) = Inr ocr'"
    and k': "get_key ''details'' ?frag =
               Some (case ocr' of JList payloads \<Rightarrow> JList payloads | _ \<Rightarrow> JList [ocr'])"
    using details_normalised [where E = demo_env and t = CNI_FRONT and lang = "Some french"
        and path = "''/tmp/tmpdir/a.png''" and filename = "''a.png''" and w = empty_world
        and frag = ?frag] entry_identity_example
    by blast
  have "ocr' = JDict [(''name'', JStr ''X'')]"
    using o' by (simp add: demo_env_def endswith_def split: if_splits)
  with k' have second: "get_key ''details'' ?frag = Some (JList [JDict [(''name'', JStr ''X'')]])"
    by simp
  from first second show ?thesis by simp
qed

text \<open>
  Claim C9: the metadata of a successful response has the key \<^verbatim>\<open>language\<close> if and only
  if the selector is \<open>CNI_FRONT\<close> or \<open>CNI_BACK\<close>, on the single path and for a bulk entry;
  a work contract never has it, whether a language was given or not.
\<close>

theorem language_key_presence:
  "(fst (ocr_smalter_sync E t fn c lang w) = Inr resp \<and> \<not> endswith (lower fn) ''.zip'' \<longrightarrow>
      (\<exists>md. get_key ''file_metadata'' resp = Some md
         \<and> (''language'' \<in> set (keys_of md) \<longleftrightarrow> t = CNI_FRONT \<or> t = CNI_BACK)))
   \<and> (fst (entry_try E t lang path filename w) = Inr frag \<longrightarrow>
      (\<exists>md. get_key ''file_metadata'' frag = Some md
         \<and> (''language'' \<in> set (keys_of md) \<longleftrightarrow> t = CNI_FRONT \<or> t = CNI_BACK)))"
proof (intro conjI impI)
  assume h: "fst (ocr_smalter_sync E t fn c lang w) = Inr resp
               \<and> \<not> endswith (lower fn) ''.zip''"
  then have "fst (single_try E t fn c lang (emit FileRead w)) = Inr resp"
    using smalter_single_response by blast
  then obtain ocr md where r: "resp = final_response md (details_of ocr)"
    and k: "''language'' \<in> fst ` set md \<longleftrightarrow> is_cni_type t"
    using single_try_response by blast
  show "\<exists>md. get_key ''file_metadata'' resp = Some md
         \<and> (''language'' \<in> set (keys_of md) \<longleftrightarrow> t = CNI_FRONT \<or> t = CNI_BACK)"
    using r k by (simp add: get_metadata keys_of_def is_cni_type_iff)
next
  assume "fst (entry_try E t lang path filename w) = Inr frag"
  then obtain ocr md where r: "frag = final_response md (details_of ocr)"
    and k: "''language'' \<in> fst ` set md \<longleftrightarrow> is_cni_type t"
    using entry_try_response by blast
  show "\<exists>md. get_key ''file_metadata'' frag = Some md
         \<and> (''language'' \<in> set (keys_of md) \<longleftrightarrow> t = CNI_FRONT \<or> t = CNI_BACK)"
    using r k by (simp add: get_metadata keys_of_def is_cni_type_iff)
qed

text \<open>
  On the test double: the work contract uploaded as \<^verbatim>\<open>c.pdf\<close> with a language given,
  and the entry \<^verbatim>\<open>a.png\<close> of an archive of identity fronts.
\<close>

theorem language_key_presence_witness:
  "''language'' \<notin> set (keys_of (JDict
        [(''file_url'', JStr ''/ocr/smalter/work_contract''), (''file_type'', JStr ''PDF''),
         (''file_creation_date'', JStr ''2024-01-01'')]))
   \<and> ''language'' \<in> set (keys_of (JDict
        [(''source_file'', JStr ''a.png''), (''file_url'', JStr ''/ocr/smalter/cni_front''),
         (''file_type'', JStr ''PNG''), (''file_creation_date'', JStr ''2024-01-01''),
         (''language'', JStr ''fr'')]))"
proof -
  let ?md = "[(''file_url'', JStr ''/ocr/smalter/work_contract''), (''file_type'', JStr ''PDF''),
         (''file_creation_date'', JStr ''2024-01-01'')]"
  let ?resp = "final_response ?md (JList [JDict [(''page'', JNum 1)], JDict [(''page'', JNum 2)]])"
  let ?md' = "[(''source_file'', JStr ''a.png''), (''file_url'', JStr ''/ocr/smalter/cni_front''),
         (''file_type'', JStr ''PNG''), (''file_creation_date'', JStr ''2024-01-01''),
         (''language'', JStr ''fr'')]"
  let ?frag = "final_response ?md' (JList [JDict [(''name'', JStr ''X'')]])"
  have r: "fst (ocr_smalter_sync demo_env WORK_CONTRACT ''c.pdf'' [80, 75] (Some french)
                  empty_world) = Inr ?resp"
    using single_work_contract_example by simp
  obtain md where m: "get_key ''file_metadata'' ?resp = Some md"
    and k: "''language'' \<in> set (keys_of md) \<longleftrightarrow> WORK_CONTRACT = CNI_FRONT \<or> WORK_CONTRACT = CNI_BACK"
    using language_key_presence [where E = demo_env and t = WORK_CONTRACT and fn = "''c.pdf''"
        and c = "[80, 75]" and lang = "Some french" and w = empty_world and resp = ?resp]
      r not_zip_c_pdf
    by blast
  have "md = JDict ?md" using m by (simp add: get_metadata)
  with k have first: "''language'' \<notin> set (keys_of (JDict ?md))" by simp
  obtain md2 where m2: "get_key ''file_metadata'' ?frag = Some md2"
    and k2: "''language'' \<in> set (keys_of md2) \<longleftrightarrow> CNI_FRONT = CNI_FRONT \<or> CNI_FRONT = CNI_BACK"
    using language_key_presence [where E = demo_env and t = CNI_FRONT and lang = "Some french"
        and path = "''/tmp/tmpdir/a.png''" and filename = "''a.png''" and w = empty_world
        and frag = ?frag] entry_identity_example
    by blast
  have "md2 = JDict ?md'" using m2 by (simp add: get_metadata)
  with k2 have second: "''language'' \<in> set (keys_of (JDict ?md'))" by simp
  from first second show ?thesis by simp
qed

subsection \<open>The choice between the bulk and the single path\<close>

text \<open>
  Claim C10: once the language check has passed, the endpoint takes the bulk path if
  and only if the lower-cased file name ends in \<^verbatim>\<open>.zip\<close>; the condition reads the name
  alone, and the bytes are handed on unread to the path chosen. So archive bytes under
  another name are written to a temporary file and given to the OCR helper, and any
  bytes named \<^verbatim>\<open>*.zip\<close> go to the bulk function.
\<close>

theorem mode_dispatch:
  assumes "\<not> (is_cni_type t \<and> lang = None)"
  shows "(endswith (lower fn) ''.zip'' \<longrightarrow>
            ocr_smalter_sync E t fn c lang w =
              (if t \<notin> set supported_bulk_types
               then (Inl (HTTPException 400 (bulk_unsupported_detail E t)), emit FileRead w)
               else (case run_bulk_ocr_task_sync E c t lang (emit FileRead w) of
                       (Inr bulk_results, w2) \<Rightarrow> (Inr (JList bulk_results), w2)
                     | (Inl e, w2) \<Rightarrow>
                         (Inl (HTTPException 500
                                 (''Bulk processing failed: '' @ str_exn E e)), w2))))
       \<and> (\<not> endswith (lower fn) ''.zip'' \<longrightarrow>
            ocr_smalter_sync E t fn c lang w =
              (case single_try E t fn c lang (emit FileRead w) of
                 (Inr resp, w2) \<Rightarrow> (Inr resp, w2)
               | (Inl e, w2) \<Rightarrow> (Inl (HTTPException 500 (str_exn E e)), w2)))"
  using assms
  by (auto simp: ocr_smalter_sync_def run_bulk_ocr_task_sync_def ocr_smalter_sync_in_def
        Let_def)

text \<open>
  On the test double: the well-formed archive \<open>[80, 75]\<close> uploaded as \<^verbatim>\<open>c.pdf\<close> takes the
  single path, and the bytes \<open>[1]\<close>, no archive, uploaded as \<^verbatim>\<open>docs.ZIP\<close> take the bulk
  path.
\<close>

theorem mode_dispatch_witness:
  "ocr_smalter_sync demo_env WORK_CONTRACT ''c.pdf'' [80, 75] None empty_world =
     (case single_try demo_env WORK_CONTRACT ''c.pdf'' [80, 75] None
             \<lparr>live = [], trace = [FileRead]\<rparr> of
        (Inr resp, w2) \<Rightarrow> (Inr resp, w2)
      | (Inl e, w2) \<Rightarrow> (Inl (HTTPException 500 (str_exn demo_env e)), w2))
   \<and> ocr_smalter_sync demo_env WORK_CONTRACT ''docs.ZIP'' [1] None empty_world =
     (case run_bulk_ocr_task_sync demo_env [1] WORK_CONTRACT None
             \<lparr>live = [], trace = [FileRead]\<rparr> of
        (Inr bulk_results, w2) \<Rightarrow> (Inr (JList bulk_results), w2)
      | (Inl e, w2) \<Rightarrow>
          (Inl (HTTPException 500 (''Bulk processing failed: '' @ str_exn demo_env e)), w2))"
proof -
  have l: "\<not> (is_cni_type WORK_CONTRACT \<and> (None :: CniLanguage option) = None)"
    by (simp add: is_cni_type_def)
  show ?thesis
    using mode_dispatch [OF l, where fn = "''c.pdf''" and E = demo_env and c = "[80, 75]"
        and w = empty_world]
      mode_dispatch [OF l, where fn = "''docs.ZIP''" and E = demo_env and c = "[1]"
        and w = empty_world]
      not_zip_c_pdf endswith_docs_ZIP
    by (simp add: emit_def empty_world_def supported_bulk_types_def)
qed

end
